theory Spec2Isabelle
  imports Main
begin

section \<open>Python strings\<close>

text \<open>
  A Python \<open>str\<close> is a sequence of code points. The scripts read UTF-8 text, and the
  tables of \<open>enrich_cocktails.py\<close> hold the letters U+00E9 and U+00F1, so a character
  is modelled as a \<^typ>\<open>char\<close> read as a code point in U+0000..U+00FF (Latin-1), and
  a \<open>str\<close> as a \<^typ>\<open>string\<close>: \<open>length\<close> is Python's \<open>len\<close>. The character
  classes below are the ones CPython uses on that range.
\<close>

definition cp :: "char \<Rightarrow> nat" where
  "cp c = of_char c"

text \<open>\<open>str.isspace\<close> on one character; also the class \<open>\s\<close> of \<open>re\<close> on \<open>str\<close>
  patterns and the characters \<open>str.strip()\<close> removes.\<close>

definition is_space :: "char \<Rightarrow> bool" where
  "is_space c = ((9 \<le> cp c \<and> cp c \<le> 13) \<or> (28 \<le> cp c \<and> cp c \<le> 32)
                 \<or> cp c = 133 \<or> cp c = 160)"

definition in_range :: "char \<Rightarrow> char \<Rightarrow> char \<Rightarrow> bool" where
  "in_range lo hi c = (cp lo \<le> cp c \<and> cp c \<le> cp hi)"

text \<open>\<open>str.isalnum\<close> on one character: letters, decimal digits and the other numeric
  characters of the range (superscripts and fractions).\<close>

definition is_alnum :: "char \<Rightarrow> bool" where
  "is_alnum c = (in_range CHR ''0'' CHR ''9'' c \<or> in_range CHR ''A'' CHR ''Z'' c
                 \<or> in_range CHR ''a'' CHR ''z'' c
                 \<or> cp c = 170 \<or> cp c = 178 \<or> cp c = 179 \<or> cp c = 181
                 \<or> cp c = 185 \<or> cp c = 186 \<or> (188 \<le> cp c \<and> cp c \<le> 190)
                 \<or> (192 \<le> cp c \<and> cp c \<le> 214) \<or> (216 \<le> cp c \<and> cp c \<le> 246)
                 \<or> 248 \<le> cp c)"

text \<open>\<open>str.isalpha\<close> on one character: the letters of the range.\<close>

definition is_alpha :: "char \<Rightarrow> bool" where
  "is_alpha c = (in_range CHR ''A'' CHR ''Z'' c \<or> in_range CHR ''a'' CHR ''z'' c
                 \<or> cp c = 170 \<or> cp c = 181 \<or> cp c = 186
                 \<or> (192 \<le> cp c \<and> cp c \<le> 214) \<or> (216 \<le> cp c \<and> cp c \<le> 246)
                 \<or> 248 \<le> cp c)"

text \<open>The class \<open>\w\<close> of \<open>re\<close> on \<open>str\<close> patterns.\<close>

definition is_word :: "char \<Rightarrow> bool" where
  "is_word c = (is_alnum c \<or> c = CHR ''_'')"

definition is_upper :: "char \<Rightarrow> bool" where
  "is_upper c = (in_range CHR ''A'' CHR ''Z'' c
                 \<or> (192 \<le> cp c \<and> cp c \<le> 222 \<and> cp c \<noteq> 215))"

definition lower_char :: "char \<Rightarrow> char" where
  "lower_char c = (if is_upper c then char_of (cp c + 32) else c)"

text \<open>\<open>s.lower()\<close>\<close>

definition lower :: "string \<Rightarrow> string" where
  "lower s = map lower_char s"

text \<open>\<open>s.strip(chars)\<close>, with the set of characters as a predicate.\<close>

definition strip_chars :: "(char \<Rightarrow> bool) \<Rightarrow> string \<Rightarrow> string" where
  "strip_chars p s = rev (dropWhile p (rev (dropWhile p s)))"

text \<open>\<open>s.strip()\<close>\<close>

definition strip :: "string \<Rightarrow> string" where
  "strip s = strip_chars is_space s"

text \<open>\<open>s.startswith(x)\<close>, \<open>s.endswith(x)\<close> and \<open>x in s\<close>\<close>

fun startswith :: "string \<Rightarrow> string \<Rightarrow> bool" where
  "startswith s [] = True"
| "startswith [] (x # xs) = False"
| "startswith (c # s) (x # xs) = (c = x \<and> startswith s xs)"


fun contains :: "string \<Rightarrow> string \<Rightarrow> bool" where
  "contains x [] = (x = [])"
| "contains x (c # s) = (startswith (c # s) x \<or> contains x s)"

text \<open>\<open>s.split(sep)\<close> for a separator of one character: never empty, and an empty
  string gives one empty field.\<close>

fun split :: "char \<Rightarrow> string \<Rightarrow> string list" where
  "split sep [] = [[]]"
| "split sep (c # s) =
     (if c = sep then [] # split sep s
      else (case split sep s of f # fs \<Rightarrow> (c # f) # fs | [] \<Rightarrow> [[c]]))"

text \<open>\<open>any(x in s for x in xs)\<close>\<close>

definition any_in :: "string list \<Rightarrow> string \<Rightarrow> bool" where
  "any_in xs s = list_ex (\<lambda>x. contains x s) xs"

section \<open>The fragment of \<open>re\<close> the scripts use\<close>

text \<open>
  The patterns of the three scripts are sequences of items: one character (a literal,
  \<open>.\<close>, \<open>\s\<close> or a bracket class of ranges), such a character under \<open>*\<close>, \<open>+\<close> or
  \<open>?\<close>, and the anchors \<open>^\<close> and \<open>$\<close>. No flag is set, so \<open>.\<close> excludes the newline,
  \<open>^\<close> holds at position 0 only and \<open>$\<close> holds at the end and before a final newline.
  \<open>re.match\<close> and \<open>re.search\<close> are used for their truth value only: whether some
  match exists.
\<close>

datatype atom = Lit char | Dot | Space | Cls "(char \<times> char) list"

datatype item = One atom | Star atom | Plus atom | Opt atom | Bol | Eol

type_synonym pattern = "item list"

fun atom_ok :: "atom \<Rightarrow> char \<Rightarrow> bool" where
  "atom_ok (Lit x) c = (c = x)"
| "atom_ok Dot c = (c \<noteq> CHR 0x0A)"
| "atom_ok Space c = is_space c"
| "atom_ok (Cls rs) c = list_ex (\<lambda>(lo, hi). in_range lo hi c) rs"

text \<open>\<open>matches p b s\<close>: the pattern matches a prefix of the rest \<open>s\<close> of the subject;
  \<open>b\<close> says that the rest is the whole subject (position 0).\<close>

fun matches :: "pattern \<Rightarrow> bool \<Rightarrow> string \<Rightarrow> bool" where
  "matches [] b s = True"
| "matches (Bol # p) b s = (b \<and> matches p b s)"
| "matches (Eol # p) b s = ((s = [] \<or> s = [CHR 0x0A]) \<and> matches p b s)"
| "matches (One a # p) b [] = False"
| "matches (One a # p) b (c # s) = (atom_ok a c \<and> matches p False s)"
| "matches (Opt a # p) b [] = matches p b []"
| "matches (Opt a # p) b (c # s) =
     ((atom_ok a c \<and> matches p False s) \<or> matches p b (c # s))"
| "matches (Star a # p) b [] = matches p b []"
| "matches (Star a # p) b (c # s) =
     ((atom_ok a c \<and> matches (Star a # p) False s) \<or> matches p b (c # s))"
| "matches (Plus a # p) b [] = False"
| "matches (Plus a # p) b (c # s) = (atom_ok a c \<and> matches (Star a # p) False s)"

text \<open>\<open>re.match(p, s)\<close> as a truth value\<close>

definition re_match :: "pattern \<Rightarrow> string \<Rightarrow> bool" where
  "re_match p s = matches p True s"

text \<open>\<open>re.search(p, s)\<close> as a truth value: a match at some position.\<close>

fun search_from :: "pattern \<Rightarrow> bool \<Rightarrow> string \<Rightarrow> bool" where
  "search_from p b [] = matches p b []"
| "search_from p b (c # s) = (matches p b (c # s) \<or> search_from p False s)"

definition re_search :: "pattern \<Rightarrow> string \<Rightarrow> bool" where
  "re_search p s = search_from p True s"

text \<open>A run of literal characters in a pattern.\<close>

definition lits :: "string \<Rightarrow> pattern" where
  "lits s = map (\<lambda>c. One (Lit c)) s"

section \<open>\<open>enrich_cocktails.py\<close>: the name classifier and the slug\<close>

text \<open>\<open>re.sub\<close> of a class of one character, and of a non-empty run of such
  characters (leftmost and greedy: each maximal run is replaced once).\<close>

definition sub_each :: "(char \<Rightarrow> bool) \<Rightarrow> string \<Rightarrow> string \<Rightarrow> string" where
  "sub_each p r s = concat (map (\<lambda>c. if p c then r else [c]) s)"

function sub_runs :: "(char \<Rightarrow> bool) \<Rightarrow> string \<Rightarrow> string \<Rightarrow> string" where
  "sub_runs p r [] = []"
| "sub_runs p r (c # s) =
     (if p c then r @ sub_runs p r (dropWhile p s) else c # sub_runs p r s)"
  by pat_completeness auto
termination
  by (relation "measure (\<lambda>(p, r, s). length s)")
     (auto simp: length_dropWhile_le less_Suc_eq_le)

text \<open>The set literal \<open>LEGITIMATE_COCKTAILS\<close>, in the order of the source (an entry
  written twice is one element of the set).\<close>

definition LEGITIMATE_COCKTAILS :: "string list" where
  "LEGITIMATE_COCKTAILS = [
     \<comment> \<open>IBA Official Cocktails\<close>
     ''alexander'', ''americano'', ''aviation'', ''b-52'', ''bellini'', ''bijou'', ''bramble'',
     ''caipirinha'', ''casino'', ''clover club'', ''cosmopolitan'', ''cuba libre'', ''daiquiri'',
     ''dry martini'', ''espresso martini'', ''french 75'', ''french connection'', ''gimlet'',
     ''gin fizz'', ''godfather'', ''godmother'', ''grasshopper'', ''greyhound'', ''harvey wallbanger'',
     ''hemingway special'', ''horse's neck'', ''irish coffee'', ''john collins'', ''long island iced tea'',
     ''mai tai'', ''manhattan'', ''margarita'', ''martini'', ''mimosa'', ''mint julep'', ''mojito'',
     ''moscow mule'', ''negroni'', ''old fashioned'', ''paloma'', ''pina colada'', ''pisco sour'',
     ''planter's punch'', ''porto flip'', ''ramos gin fizz'', ''rob roy'', ''rusty nail'',
     ''sazerac'', ''screwdriver'', ''sea breeze'', ''sex on the beach'', ''sidecar'', ''singapore sling'',
     ''tequila sunrise'', ''tom collins'', ''vesper'', ''whiskey sour'', ''white russian'',
     \<comment> \<open>Classic Pre-Prohibition & Savoy Cocktails\<close>
     ''blood and sand'', ''boulevardier'', ''brandy alexander'', ''bronx'', ''brooklyn'',
     ''casino royale'', ''corpse reviver'', ''last word'', ''martinez'', ''monkey gland'',
     ''pegu club'', ''pink lady'', ''ramos fizz'', (''vieux carr'' @ [CHR 0xE9]), ''ward eight'',
     ''widow's kiss'', ''army & navy'', ''bamboo'', ''hanky panky'', ''income tax'',
     \<comment> \<open>Modern Classics (Post-1980)\<close>
     ''aperol spritz'', ''dark 'n' stormy'', ''espresso martini'', ''french martini'',
     ''bramble'', ''tommy's margarita'', ''penicillin'', ''naked and famous'', ''paper plane'',
     ''suffering bastard'', ''ti' punch'', ''jungle bird'', ''chartreuse swizzle'',
     \<comment> \<open>Tiki & Tropical (Smuggler's Cove lineage)\<close>
     ''zombie'', ''mai tai'', ''painkiller'', ''navy grog'', ''fog cutter'', ''pearl diver'',
     ''saturn'', ''three dots and a dash'', ''missionary's downfall'', ''rum runner'',
     ''bahama mama'', ''blue hawaiian'', ''chi chi'', ''hurricane'', ''jet pilot'',
     (''pi'' @ [CHR 0xF1] @ ''a colada''), ''planter's punch'', ''scorpion'', ''suffering bastard'',
     \<comment> \<open>Contemporary Classics & Well-Documented Modern Drinks\<close>
     ''elderflower collins'', ''gold rush'', ''oaxaca old fashioned'', ''division bell'',
     ''death flip'', ''greenpoint'', ''little italy'', ''red hook'', ''trident'',
     ''bitter giuseppe'', ''black manhattan'', ''bobby burns'', ''brandy crusta'',
     ''breakfast martini'', ''benton's old fashioned'', ''chrysanthemum'', ''improved whiskey cocktail'',
     \<comment> \<open>Additional Legitimate Historical & Regional Cocktails\<close>
     ''adonis'', ''affinity'', ''algonquin'', ''artillery'', ''barracuda'', ''bellini'',
     ''blinker'', ''bobby burns'', ''boston sour'', ''bramble'', ''bronx'', ''brooklyn'',
     ''buck's fizz'', ''caipirissima'', ''champagne cocktail'', ''clover club'', ''cornell'',
     ''death in the afternoon'', ''derby'', ''diamond fizz'', ''dubonnet cocktail'',
     ''el presidente'', ''english rose cocktail'', ''fiance'', ''fitzgerald'', ''flamingo'',
     ''french negroni'', ''frose'', ''frozen daiquiri'', ''gibson'', ''gimlet'', ''gin and tonic'',
     ''gin daisy'', ''gin fizz'', ''gin rickey'', ''gin sour'', ''gluehwein'', ''golden dream'',
     ''grasshopper'', ''hemingway daiquiri'', ''hot toddy'', ''improved cognac cocktail'',
     ''irish coffee'', ''jack rose'', ''japanese cocktail'', ''kir'', ''kir royale'',
     ''lemondrop'', ''long island iced tea'', ''lynchburg lemonade'', ''manhattan'', ''margarita'',
     ''mary pickford'', ''mexican firing squad'', ''millionaire cocktail'', ''mint julep'',
     ''mojito'', ''moscow mule'', ''negroni'', ''negroni sbagliato'', ''old cuban'',
     ''old fashioned'', ''paloma'', ''paradise'', ''pegu club'', ''pimm's cup'', ''pisco sour'',
     ''planter's punch'', ''port and starboard'', ''ramos gin fizz'', ''remember the maine'',
     ''rob roy'', ''rusty nail'', ''sazerac'', ''scofflaw'', ''screwdriver'', ''seelbach'',
     ''sherry cobbler'', ''sidecar'', ''singapore sling'', ''sloe gin fizz'', ''smithsonian'',
     ''southside'', ''stinger'', ''suffering bastard'', ''tequila sunrise'', ''tom collins'',
     ''toronto'', ''twentieth century'', ''vesper'', (''vieux carr'' @ [CHR 0xE9]), ''ward eight'',
     ''whiskey smash'', ''whiskey sour'', ''white lady'', ''white russian'', ''yellow bird'',
     \<comment> \<open>Additional Valid Lesser-Known Cocktails\<close>
     ''adonis'', ''bijou'', ''boothby'', ''boxcar'', ''brandy crusta'', ''casino'', ''chicago fizz'',
     ''corn n oil'', ''dark caipirinha'', ''dirty martini'', ''dragonfly'', ''dry rob roy'',
     ''duchamp's punch'', ''english highball'', ''fancy free'', ''figgy thyme'', ''flying dutchman'',
     ''flying scotchman'', ''frisco sour'', ''frozen mint daiquiri'', ''frozen pineapple daiquiri'',
     ''gagliardo'', ''gin and it'', ''gin cooler'', ''gin daisy'', ''gin lemon'', ''gin rickey'',
     ''gin sling'', ''gin smash'', ''gin squirt'', ''gin swizzle'', ''gin toddy'', ''gin tonic'',
     ''grass skirt'', ''grim reaper'', ''pink gin'', ''sherry flip'', ''stone sour'',
     ''amaretto sour'', ''apple martini'', ''b-53'', ''between the sheets'', ''black russian'',
     ''blackthorn'', ''blue lagoon'', ''bluebird'', ''bora bora'', ''boomerang'', ''brigadier'',
     ''buccaneer'', ''bumble bee'', ''cherry bomb'', ''cuba libra'', ''dirty nipple'',
     ''flaming lamborghini'', ''freddy kruger'', ''french 75'', ''foxy lady'', ''funk and soul'',
     ''gin and tonic'', ''godchild'', ''grand blue'', ''godson'', ''kamikaze'', ''kir'', ''kiss on the lips'',
     ''lemon drop'', ''lion's tail'', ''long vodka'', ''lynchburg lemonade'', ''madras'',
     ''melon ball'', ''metropolitan'', ''midori sour'', ''mother's milk'', ''mudslide'',
     ''new york sour'', ''nuclear daiquiri'', ''orange push-up'', ''orgasm'', ''passion fruit martini'',
     ''pimm's cup'', ''pink panther'', ''purple haze'', ''radioactive long island iced tea'',
     ''red snapper'', ''royal gin fizz'', ''rum and coke'', ''rum punch'', ''rum swizzle'',
     ''sake bomb'', ''salty dog'', ''savoy tango'', ''screaming orgasm'', ''slippery nipple'',
     ''snow ball'', ''southern comfort manhattan'', ''southern peach'', ''stinger'', ''strawberry daiquiri'',
     ''sweet martini'', ''tequila slammer'', ''tequila sunrise'', ''tipperary'', ''tokyo iced tea'',
     ''turf club'', ''valencia'', ''vampire'', ''vodka martini'', ''vodka tonic'', ''woo woo'',
     ''acapulco'', ''affair'', ''allegheny'', ''almeria'', ''applecar'', ''avalon'', ''balmoral'',
     ''boston sour'', ''cafe savoy'', ''casa blanca'', ''cherry rum'', ''chocolate milk''
  ]"

text \<open>The list \<open>JUNK_PATTERNS\<close>.\<close>

definition JUNK_PATTERNS :: "pattern list" where
  "JUNK_PATTERNS = [
     [Bol, One (Cls [(CHR ''a'', CHR ''z'')]), Eol],
     Bol # lits ''a1'' @ [Eol], Bol # lits ''abc'' @ [Eol], Bol # lits ''ace'' @ [Eol],
     Bol # lits ''at&t'' @ [Eol],
     Bol # lits ''acid'' @ [Eol], Bol # lits ''adam'' @ [Eol],
     Bol # lits ''a'' @ [Opt (Lit CHR ''.''), Star Space] @ lits ''j'' @ [Opt (Lit CHR ''.''), Eol],
     Bol # lits ''abilene'' @ [Eol], Bol # lits ''addison'' @ [Eol],
     Bol # lits ''apello'' @ [Eol], Bol # lits ''avalanche'' @ [Eol],
     lits ''brain'' @ [Star Space] @ lits ''fart'',
     lits ''fuzzy'' @ [Star Space] @ lits ''asshole'',
     lits ''flaming'' @ [Star Space] @ lits ''dr'' @ [Opt (Lit CHR ''.''), Star Space] @ lits ''pepper'',
     lits ''fahrenheit'' @ [Star Space] @ lits ''5000'',
     lits ''big'' @ [Star Space] @ lits ''red'' @ [Eol],
     lits ''bible'' @ [Star Space] @ lits ''belt'',
     lits ''baby'' @ [Star Space] @ lits ''eskimo'',
     lits ''bob'' @ [Star Space] @ lits ''marley'',
     lits ''bubble'' @ [Star Space] @ lits ''gum'' @ [Eol],
     lits ''citrus'' @ [Star Space] @ lits ''coke'' @ [Eol],
     Bol # lits ''gg'' @ [Eol],
     lits ''damned'' @ [Star Space] @ lits ''if'' @ [Star Space] @ lits ''you'' @ [Star Space] @ lits ''do'',
     lits ''egg'' @ [Star Space] @ lits ''cream'' @ [Eol],
     lits ''coke'' @ [Star Space] @ lits ''and'' @ [Star Space] @ lits ''drops'',
     lits ''diesel'' @ [Eol], lits ''danbooka'' @ [Eol], lits ''downshift'' @ [Eol],
     lits ''darkwood'' @ [Star Space] @ lits ''sling'',
     lits ''flander'' @ [Star Dot] @ lits ''flake'',
     lits ''afterglow'' @ [Eol], lits ''addington'' @ [Eol],
     Bol # lits ''affair'' @ [Eol]
  ]"

text \<open>\<open>normalize_name(name)\<close>; \<open>None\<close> is Python's \<open>None\<close>, and \<open>not name\<close> holds of
  it and of the empty string.\<close>

definition normalize_name :: "string option \<Rightarrow> string" where
  "normalize_name name =
     (case name of
        None \<Rightarrow> []
      | Some n \<Rightarrow>
          if n = [] then []
          else strip (sub_each (\<lambda>c. \<not> (is_word c \<or> is_space c)) [] (lower n)))"

text \<open>The loop of \<open>is_legitimate_cocktail\<close> over the patterns still to try, with its
  early \<open>return False\<close>, and the membership test after it.\<close>

fun is_legitimate_from :: "pattern list \<Rightarrow> string \<Rightarrow> bool" where
  "is_legitimate_from [] normalized = (normalized \<in> set LEGITIMATE_COCKTAILS)"
| "is_legitimate_from (pattern # ps) normalized =
     (if re_match pattern normalized then False else is_legitimate_from ps normalized)"

definition is_legitimate_cocktail :: "string option \<Rightarrow> bool" where
  "is_legitimate_cocktail name = is_legitimate_from JUNK_PATTERNS (normalize_name name)"

text \<open>\<open>create_slug(name)\<close>\<close>

definition create_slug :: "string \<Rightarrow> string" where
  "create_slug name =
     (let slug = lower name;
          slug = sub_each (\<lambda>c. \<not> (is_word c \<or> is_space c \<or> c = CHR ''-'')) [] slug;
          slug = sub_runs (\<lambda>c. is_space c \<or> c = CHR ''_'') ''-'' slug;
          slug = strip_chars (\<lambda>c. c = CHR ''-'') slug
      in slug)"

text \<open>The characters a generated slug is made of: unchanged by lowercasing, kept by the
  first substitution and not replaced by the second.\<close>

definition slug_char :: "char \<Rightarrow> bool" where
  "slug_char c = (lower_char c = c \<and> (is_word c \<or> is_space c \<or> c = CHR ''-'')
                  \<and> \<not> (is_space c \<or> c = CHR ''_''))"

section \<open>\<open>enrich_cocktails.py\<close>: flavor ratings\<close>

text \<open>\<open>generate_flavor_profile(name, aspect)\<close>\<close>

definition generate_flavor_profile :: "string \<Rightarrow> string \<Rightarrow> int" where
  "generate_flavor_profile name aspect =
     (let name_lower = lower name in
      if aspect = ''strength'' then
        (if any_in [''martini'', ''manhattan'', ''negroni'', ''sazerac'', ''old fashioned''] name_lower
           then 8
         else if any_in [''shot'', ''shooter''] name_lower then 9
         else if any_in [''spritz'', ''mimosa'', ''bellini''] name_lower then 3
         else 6)
      else if aspect = ''sweetness'' then
        (if any_in [''pina colada'', ''mai tai'', ''sex on the beach''] name_lower then 8
         else if any_in [''martini'', ''negroni'', ''sazerac''] name_lower then 2
         else 5)
      else if aspect = ''tartness'' then
        (if any_in [''sour'', ''daiquiri'', ''margarita'', ''gimlet''] name_lower then 7
         else if any_in [''old fashioned'', ''manhattan'', ''negroni''] name_lower then 2
         else 4)
      else if aspect = ''bitterness'' then
        (if any_in [''negroni'', ''americano'', ''aperol''] name_lower then 7
         else if any_in [''daiquiri'', ''mojito'', ''pina colada''] name_lower then 1
         else 3)
      else if aspect = ''aroma'' then
        (if any_in [''martini'', ''gin'', ''aviation'', ''negroni''] name_lower then 7
         else 5)
      else if aspect = ''texture'' then
        (if any_in [''flip'', ''sour''] name_lower \<and> contains ''egg'' name_lower then 8
         else if any_in [''frozen'', ''blended'', ''pina colada''] name_lower then 7
         else if any_in [''martini'', ''manhattan''] name_lower then 4
         else 5)
      else 5)"

text \<open>The keywords \<open>generate_flavor_profile\<close> looks for under each aspect.\<close>

definition aspect_keywords :: "string \<Rightarrow> string list" where
  "aspect_keywords aspect =
     (if aspect = ''strength'' then
        [''martini'', ''manhattan'', ''negroni'', ''sazerac'', ''old fashioned'',
         ''shot'', ''shooter'', ''spritz'', ''mimosa'', ''bellini'']
      else if aspect = ''sweetness'' then
        [''pina colada'', ''mai tai'', ''sex on the beach'', ''martini'', ''negroni'', ''sazerac'']
      else if aspect = ''tartness'' then
        [''sour'', ''daiquiri'', ''margarita'', ''gimlet'', ''old fashioned'', ''manhattan'',
         ''negroni'']
      else if aspect = ''bitterness'' then
        [''negroni'', ''americano'', ''aperol'', ''daiquiri'', ''mojito'', ''pina colada'']
      else if aspect = ''aroma'' then [''martini'', ''gin'', ''aviation'', ''negroni'']
      else if aspect = ''texture'' then
        [''flip'', ''sour'', ''egg'', ''frozen'', ''blended'', ''pina colada'', ''martini'',
         ''manhattan'']
      else [])"

definition aspects :: "string list" where
  "aspects = [''strength'', ''sweetness'', ''tartness'', ''bitterness'', ''aroma'', ''texture'']"

text \<open>The value each aspect's chain of tests ends with.\<close>

definition default_rating :: "string \<Rightarrow> int" where
  "default_rating aspect =
     (if aspect = ''strength'' then 6
      else if aspect = ''tartness'' then 4
      else if aspect = ''bitterness'' then 3
      else 5)"

section \<open>\<open>enrich_cocktails.py\<close>: the enrichment pass of \<open>main\<close>\<close>

text \<open>
  A row of \<open>csv.DictReader\<close> is a dictionary from column names to the strings of the
  row. A column the file does not have is absent from the dictionary: \<open>row['id']\<close>
  raises \<open>KeyError\<close> then, and \<open>row.get\<close> gives its default. The rows modelled
  are the complete ones, with a string for every column of the header (a row cut short
  has \<open>None\<close> for the columns it lacks).
\<close>

type_synonym row = "string \<rightharpoonup> string"

datatype error = KeyError | ZeroDivisionError

definition dict_get :: "row \<Rightarrow> string \<Rightarrow> string \<Rightarrow> string" where
  "dict_get r k d = (case r k of None \<Rightarrow> d | Some v \<Rightarrow> v)"

text \<open>
  The enriched record, with the fields the pass over the records reads and writes: the
  other fields are computed from \<open>name\<close>, \<open>glass\<close> and \<open>instructions\<close> by functions
  that return a string for every string and are not read again.
\<close>

record enriched =
  erow_id :: string
  erow_slug :: string
  erow_name :: string

text \<open>\<open>enrich_cocktail(row)\<close>\<close>

definition enrich_cocktail :: "row \<Rightarrow> error + enriched" where
  "enrich_cocktail r =
     (case r ''name'' of
        None \<Rightarrow> Inl KeyError
      | Some n \<Rightarrow>
          (let name = strip n; slug = create_slug name in
           case r ''id'' of
             None \<Rightarrow> Inl KeyError
           | Some i \<Rightarrow> Inr \<lparr>erow_id = i, erow_slug = slug, erow_name = name\<rparr>))"

text \<open>The first loop of \<open>main\<close>: the rows kept and the names removed.\<close>

fun filter_loop :: "row list \<Rightarrow> row list \<Rightarrow> string list \<Rightarrow> row list \<times> string list" where
  "filter_loop [] legitimate junk = (legitimate, junk)"
| "filter_loop (r # rows) legitimate junk =
     (let name = strip (dict_get r ''name'' []) in
      if is_legitimate_cocktail (Some name) then filter_loop rows (legitimate @ [r]) junk
      else filter_loop rows legitimate (junk @ [name]))"

text \<open>
  The second loop of \<open>main\<close>, over the rows kept: the state is the registry
  \<open>seen_slugs\<close> and the list \<open>enriched_cocktails\<close>. A record whose enrichment raises
  is reported and left out.
\<close>

fun enrich_loop ::
  "row list \<Rightarrow> (string \<rightharpoonup> string) \<Rightarrow> enriched list \<Rightarrow> (string \<rightharpoonup> string) \<times> enriched list"
where
  "enrich_loop [] seen_slugs enriched_cocktails = (seen_slugs, enriched_cocktails)"
| "enrich_loop (r # rows) seen_slugs enriched_cocktails =
     (case enrich_cocktail r of
        Inl e \<Rightarrow> enrich_loop rows seen_slugs enriched_cocktails
      | Inr enriched \<Rightarrow>
          (let slug = erow_slug enriched in
           if seen_slugs slug \<noteq> None then
             enrich_loop rows seen_slugs
               (enriched_cocktails @ [enriched\<lparr>erow_slug := slug @ ''-'' @ erow_id enriched\<rparr>])
           else
             enrich_loop rows (seen_slugs(slug \<mapsto> erow_id enriched))
               (enriched_cocktails @ [enriched])))"

text \<open>The records \<open>main\<close> writes, and the registry at the end of the pass.\<close>

definition enrich_pass :: "row list \<Rightarrow> (string \<rightharpoonup> string) \<times> enriched list" where
  "enrich_pass legitimate = enrich_loop legitimate Map.empty []"

definition main_enrich :: "row list \<Rightarrow> enriched list" where
  "main_enrich rows = snd (enrich_pass (fst (filter_loop rows [] [])))"

text \<open>
  For the statement of the pass: the records \<open>enrich_cocktail\<close> returns for the rows,
  in order and before any slug is rewritten; a record with its slug rewritten; and the
  records of a pass that starts with the set \<open>S\<close> of slugs in its registry.
\<close>

definition enriched_of :: "row list \<Rightarrow> enriched list" where
  "enriched_of rows =
     concat (map (\<lambda>r. case enrich_cocktail r of Inl e \<Rightarrow> [] | Inr enriched \<Rightarrow> [enriched]) rows)"

definition renamed :: "enriched \<Rightarrow> enriched" where
  "renamed e = e\<lparr>erow_slug := erow_slug e @ ''-'' @ erow_id e\<rparr>"

fun dedup :: "string set \<Rightarrow> enriched list \<Rightarrow> enriched list" where
  "dedup S [] = []"
| "dedup S (e # es) =
     (if erow_slug e \<in> S then renamed e # dedup S es
      else e # dedup (insert (erow_slug e) S) es)"


section \<open>\<open>validate_ingredients.py\<close>\<close>

text \<open>\<open>validate_ingredient_format(ingredient)\<close>: the pair \<open>(is_valid, error_msg)\<close>.\<close>

definition validate_ingredient_format :: "string \<Rightarrow> bool \<times> string option" where
  "validate_ingredient_format ingredient0 =
     (let ingredient = strip ingredient0 in
      if ingredient = [] then (False, Some ''Empty ingredient'')
      else if contains ''???'' ingredient then (False, Some (''Contains '???'' @ [CHR 0x27]))
      else if ingredient = ''null'' \<or> ingredient = ''None''
        then (False, Some ''Invalid null value'')
      else if length ingredient < 2 then (False, Some ''Too short'')
      else if count_list ingredient CHR ''|'' > 0
        then (False, Some ''Contains pipe character (should be split)'')
      else if \<not> re_search [One (Cls [(CHR ''a'', CHR ''z''), (CHR ''A'', CHR ''Z'')])] ingredient
        then (False, Some ''No ingredient name found'')
      else (True, None))"

text \<open>
  The diagnostics of \<open>validate_ingredients\<close>, with the values its messages are
  formatted from: the line, the name, the position of the ingredient, the reason and the
  ingredient.
\<close>

datatype ing_error =
  NoIngredients nat string
| BadIngredient nat string nat "string option" string

datatype ing_warning =
  FewIngredients nat string nat
| ManyIngredients nat string nat

record vi_state =
  vi_errors :: "ing_error list"
  vi_warnings :: "ing_warning list"
  vi_total_rows :: nat
  vi_total_ingredients :: nat

text \<open>The inner loop over \<open>enumerate(ingredients, start=1)\<close>.\<close>

fun ingredient_loop ::
  "nat \<Rightarrow> string \<Rightarrow> nat \<Rightarrow> string list \<Rightarrow> ing_error list \<Rightarrow> ing_error list" where
  "ingredient_loop i name j [] errors = errors"
| "ingredient_loop i name j (ingredient # rest) errors =
     (case validate_ingredient_format ingredient of
        (is_valid, error_msg) \<Rightarrow>
          if \<not> is_valid
          then ingredient_loop i name (j + 1) rest
                 (errors @ [BadIngredient i name j error_msg ingredient])
          else ingredient_loop i name (j + 1) rest errors)"

text \<open>The body of the loop over the rows, for the row at line \<open>i\<close>.\<close>

definition vi_row :: "nat \<Rightarrow> row \<Rightarrow> vi_state \<Rightarrow> vi_state" where
  "vi_row i r st =
     (let st = st\<lparr>vi_total_rows := vi_total_rows st + 1\<rparr>;
          name = strip (dict_get r ''name'' []);
          ingredients_str = strip (dict_get r ''ingredients'' [])
      in
      if ingredients_str = [] then
        st\<lparr>vi_errors := vi_errors st @ [NoIngredients i name]\<rparr>
      else
        (let ingredients = map strip (split CHR ''|'' ingredients_str);
             st = st\<lparr>vi_total_ingredients := vi_total_ingredients st + length ingredients\<rparr>;
             st = st\<lparr>vi_errors := ingredient_loop i name 1 ingredients (vi_errors st)\<rparr>;
             st = (if length ingredients < 2
                   then st\<lparr>vi_warnings :=
                          vi_warnings st @ [FewIngredients i name (length ingredients)]\<rparr>
                   else st);
             st = (if length ingredients > 15
                   then st\<lparr>vi_warnings :=
                          vi_warnings st @ [ManyIngredients i name (length ingredients)]\<rparr>
                   else st)
         in st))"

fun vi_loop :: "nat \<Rightarrow> row list \<Rightarrow> vi_state \<Rightarrow> vi_state" where
  "vi_loop i [] st = st"
| "vi_loop i (r # rows) st = vi_loop (i + 1) rows (vi_row i r st)"

definition vi_scan :: "row list \<Rightarrow> vi_state" where
  "vi_scan rows =
     vi_loop 2 rows
       \<lparr>vi_errors = [], vi_warnings = [], vi_total_rows = 0, vi_total_ingredients = 0\<rparr>"

text \<open>For the statement of the scan: the tokens of a row, and the errors the body of the
  loop adds for the row at line \<open>i\<close>.\<close>

definition row_tokens :: "row \<Rightarrow> string list" where
  "row_tokens r = map strip (split CHR ''|'' (strip (dict_get r ''ingredients'' [])))"

definition row_errors :: "nat \<Rightarrow> row \<Rightarrow> ing_error list" where
  "row_errors i r =
     (let name = strip (dict_get r ''name'' []) in
      if strip (dict_get r ''ingredients'' []) = [] then [NoIngredients i name]
      else ingredient_loop i name 1 (row_tokens r) [])"

text \<open>
  \<open>validate_ingredients(csv_file)\<close> on the rows of the file: the report divides
  \<open>total_ingredients\<close> by \<open>total_rows\<close> before anything is returned, and the value
  returned is \<open>not errors\<close>.
\<close>

definition validate_ingredients :: "row list \<Rightarrow> error + bool" where
  "validate_ingredients rows =
     (let st = vi_scan rows in
      if vi_total_rows st = 0 then Inl ZeroDivisionError
      else Inr (vi_errors st = []))"

text \<open>\<open>main\<close> of \<open>validate_ingredients.py\<close>: \<open>None\<close> is a file that does not exist.\<close>

definition vi_main :: "row list option \<Rightarrow> error + bool" where
  "vi_main file =
     (case file of None \<Rightarrow> Inr False | Some rows \<Rightarrow> validate_ingredients rows)"

text \<open>The exit status of the script: \<open>exit(0 if success else 1)\<close>, and 1 when the
  interpreter ends on an exception nothing caught.\<close>

definition exit_code :: "error + bool \<Rightarrow> nat" where
  "exit_code res = (case res of Inl e \<Rightarrow> 1 | Inr success \<Rightarrow> if success then 0 else 1)"

section \<open>\<open>validate_slugs.py\<close>\<close>

text \<open>\<open>is_url_safe(slug)\<close>\<close>

definition is_url_safe :: "string \<Rightarrow> bool" where
  "is_url_safe slug =
     re_match [Bol, Plus (Cls [(CHR ''a'', CHR ''z''), (CHR ''0'', CHR ''9''),
                              (CHR ''-'', CHR ''-'')]), Eol] slug"












text \<open>\<open>Counter(slugs)\<close> as the list of its items: the keys in the order they were first
  counted, each with its count.\<close>

fun counter_add :: "string \<Rightarrow> (string \<times> nat) list \<Rightarrow> (string \<times> nat) list" where
  "counter_add x [] = [(x, 1)]"
| "counter_add x ((k, n) # kvs) =
     (if k = x then (k, n + 1) # kvs else (k, n) # counter_add x kvs)"

definition Counter :: "string list \<Rightarrow> (string \<times> nat) list" where
  "Counter xs = foldl (\<lambda>kvs x. counter_add x kvs) [] xs"

text \<open>The dictionary \<open>duplicates\<close>, as the list of its items.\<close>

definition duplicates :: "string list \<Rightarrow> (string \<times> nat) list" where
  "duplicates slugs = filter (\<lambda>(slug, count). count > 1) (Counter slugs)"


section \<open>Facts about the string operations and the patterns\<close>

lemma startswith_iff: "startswith s x \<longleftrightarrow> (\<exists>v. s = x @ v)"
  by (induction s x rule: startswith.induct) auto

lemma contains_iff: "contains x s \<longleftrightarrow> (\<exists>u v. s = u @ x @ v)"
proof (induction s)
  case Nil
  then show ?case by simp
next
  case (Cons c s)
  show ?case
  proof
    assume "contains x (c # s)"
    then consider "startswith (c # s) x" | "contains x s" by auto
    then show "\<exists>u v. c # s = u @ x @ v"
    proof cases
      case 1
      then obtain v where "c # s = x @ v" by (auto simp: startswith_iff)
      then have "c # s = [] @ x @ v" by simp
      then show ?thesis by blast
    next
      case 2
      with Cons obtain u v where "s = u @ x @ v" by blast
      then have "c # s = (c # u) @ x @ v" by simp
      then show ?thesis by blast
    qed
  next
    assume "\<exists>u v. c # s = u @ x @ v"
    then obtain u v where uv: "c # s = u @ x @ v" by blast
    show "contains x (c # s)"
    proof (cases u)
      case Nil
      with uv have "startswith (c # s) x" by (auto simp: startswith_iff)
      then show ?thesis by simp
    next
      case (Cons a u')
      with uv have "s = u' @ x @ v" by simp
      with Cons.IH have "contains x s" by blast
      then show ?thesis by simp
    qed
  qed
qed

lemma search_from_one: "search_from [One a] b s \<longleftrightarrow> (\<exists>c\<in>set s. atom_ok a c)"
  by (induction s arbitrary: b) auto

lemma re_search_one: "re_search [One a] s \<longleftrightarrow> (\<exists>c\<in>set s. atom_ok a c)"
  by (simp add: re_search_def search_from_one)

lemma count_list_pos: "count_list s c > 0 \<longleftrightarrow> c \<in> set s"
  using count_list_0_iff [of s c] by auto

lemma sub_each_delete: "sub_each p [] s = filter (\<lambda>c. \<not> p c) s"
  by (induction s) (auto simp: sub_each_def)

section \<open>The name classifier\<close>

lemma is_legitimate_from_iff:
  "is_legitimate_from ps n \<longleftrightarrow>
     \<not> (\<exists>p\<in>set ps. re_match p n) \<and> n \<in> set LEGITIMATE_COCKTAILS"
  by (induction ps) auto

lemma normalize_name_eq:
  "normalize_name name =
     (case name of
        None \<Rightarrow> []
      | Some n \<Rightarrow> strip (filter (\<lambda>c. is_word c \<or> is_space c) (lower n)))"
  by (auto simp: normalize_name_def sub_each_delete lower_def strip_def strip_chars_def
           split: option.splits)

lemma is_legitimate_falsy:
  "\<not> is_legitimate_cocktail None \<and> \<not> is_legitimate_cocktail (Some [])"
  by code_simp

text \<open>
  Claim C2. \<open>is_legitimate_cocktail\<close> returns true exactly when the normalized name
  matches no junk pattern at position 0 and is an element of the allow-list, where the
  normalized name is the lowercased name with every character that is neither a word
  character nor whitespace removed, then trimmed (the empty string for \<open>None\<close>); for
  \<open>None\<close> and for the empty string it returns false.
\<close>

theorem is_legitimate_cocktail_iff:
  "(is_legitimate_cocktail name \<longleftrightarrow>
      \<not> (\<exists>p\<in>set JUNK_PATTERNS. re_match p (normalize_name name))
      \<and> normalize_name name \<in> set LEGITIMATE_COCKTAILS)
   \<and> normalize_name name =
       (case name of
          None \<Rightarrow> []
        | Some n \<Rightarrow> strip (filter (\<lambda>c. is_word c \<or> is_space c) (lower n)))
   \<and> \<not> is_legitimate_cocktail None
   \<and> \<not> is_legitimate_cocktail (Some [])"
  using is_legitimate_from_iff [of JUNK_PATTERNS "normalize_name name"]
    normalize_name_eq [of name] is_legitimate_falsy
  by (simp add: is_legitimate_cocktail_def)

lemma allow_list_entry_accepted:
  assumes "e \<in> set LEGITIMATE_COCKTAILS" and "normalize_name (Some e) = e"
    and "\<not> (\<exists>p\<in>set JUNK_PATTERNS. re_match p e)"
  shows "is_legitimate_cocktail (Some e)"
  using assms is_legitimate_from_iff [of JUNK_PATTERNS e]
  by (simp add: is_legitimate_cocktail_def)

text \<open>
  Claim C1, on the allow-list entry \<open>b-52\<close>: it is an element of
  \<open>LEGITIMATE_COCKTAILS\<close>, its normalized form \<open>b52\<close> matches no junk pattern, and
  the classifier rejects it, since normalization removes the hyphen and \<open>b52\<close> is not an
  element of the allow-list.
\<close>

theorem allow_list_entry_rejected:
  "''b-52'' \<in> set LEGITIMATE_COCKTAILS
   \<and> normalize_name (Some ''b-52'') = ''b52''
   \<and> \<not> (\<exists>p\<in>set JUNK_PATTERNS. re_match p (normalize_name (Some ''b-52'')))
   \<and> \<not> is_legitimate_cocktail (Some ''b-52'')"
  by code_simp

section \<open>The ingredient format rules\<close>

lemma ingredient_rules:
  "validate_ingredient_format token =
     (let t = strip token in
      if t = [] then (False, Some ''Empty ingredient'')
      else if (\<exists>u v. t = u @ ''???'' @ v) then (False, Some (''Contains '???'' @ [CHR 0x27]))
      else if t = ''null'' \<or> t = ''None'' then (False, Some ''Invalid null value'')
      else if length t < 2 then (False, Some ''Too short'')
      else if CHR ''|'' \<in> set t then (False, Some ''Contains pipe character (should be split)'')
      else if \<not> (\<exists>c\<in>set t. in_range CHR ''a'' CHR ''z'' c \<or> in_range CHR ''A'' CHR ''Z'' c)
        then (False, Some ''No ingredient name found'')
      else (True, None))"
  unfolding validate_ingredient_format_def Let_def contains_iff re_search_one count_list_pos
  by simp

lemma ingredient_examples:
  "validate_ingredient_format ''2 oz gin'' = (True, None)
   \<and> validate_ingredient_format ''Lemon twist'' = (True, None)
   \<and> validate_ingredient_format [] = (False, Some ''Empty ingredient'')
   \<and> validate_ingredient_format ''a'' = (False, Some ''Too short'')
   \<and> validate_ingredient_format ''gin???'' = (False, Some (''Contains '???'' @ [CHR 0x27]))
   \<and> validate_ingredient_format ''null'' = (False, Some ''Invalid null value'')
   \<and> validate_ingredient_format ''123'' = (False, Some ''No ingredient name found'')"
  by code_simp

text \<open>
  Claim C4, amended. \<open>validate_ingredient_format\<close> trims the token and applies its
  rules in order, the first failure deciding: empty; containing \<open>???\<close>; equal to
  \<open>null\<close> or \<open>None\<close>; shorter than 2 characters; containing a pipe; containing
  none of the letters \<open>a\<close>-\<open>z\<close> and \<open>A\<close>-\<open>Z\<close> (the class \<open>[a-zA-Z]\<close> of the
  code: a letter outside it does not count); otherwise the token is valid.
  \<open>2 oz gin\<close> and \<open>Lemon twist\<close> are valid; the empty token, \<open>a\<close>, \<open>gin???\<close>,
  \<open>null\<close> and \<open>123\<close> are invalid, each with the reason of its rule.
\<close>

theorem validate_ingredient_format_rules:
  "validate_ingredient_format token =
     (let t = strip token in
      if t = [] then (False, Some ''Empty ingredient'')
      else if (\<exists>u v. t = u @ ''???'' @ v) then (False, Some (''Contains '???'' @ [CHR 0x27]))
      else if t = ''null'' \<or> t = ''None'' then (False, Some ''Invalid null value'')
      else if length t < 2 then (False, Some ''Too short'')
      else if CHR ''|'' \<in> set t then (False, Some ''Contains pipe character (should be split)'')
      else if \<not> (\<exists>c\<in>set t. in_range CHR ''a'' CHR ''z'' c \<or> in_range CHR ''A'' CHR ''Z'' c)
        then (False, Some ''No ingredient name found'')
      else (True, None))
   \<and> validate_ingredient_format ''2 oz gin'' = (True, None)
   \<and> validate_ingredient_format ''Lemon twist'' = (True, None)
   \<and> validate_ingredient_format [] = (False, Some ''Empty ingredient'')
   \<and> validate_ingredient_format ''a'' = (False, Some ''Too short'')
   \<and> validate_ingredient_format ''gin???'' = (False, Some (''Contains '???'' @ [CHR 0x27]))
   \<and> validate_ingredient_format ''null'' = (False, Some ''Invalid null value'')
   \<and> validate_ingredient_format ''123'' = (False, Some ''No ingredient name found'')"
  using ingredient_rules [of token] ingredient_examples by blast

text \<open>
  The claim as stated makes a token invalid by the last rule only when it has no
  alphabetic character. The token of two letters U+00E9 passes the first five rules and
  is made of alphabetic characters, and it is invalid: the last rule looks for a letter
  of \<open>[a-zA-Z]\<close> only.
\<close>

theorem validate_ingredient_format_counterexample:
  "strip [CHR 0xE9, CHR 0xE9] = [CHR 0xE9, CHR 0xE9]
   \<and> \<not> contains ''???'' [CHR 0xE9, CHR 0xE9]
   \<and> [CHR 0xE9, CHR 0xE9] \<noteq> ''null'' \<and> [CHR 0xE9, CHR 0xE9] \<noteq> ''None''
   \<and> \<not> length [CHR 0xE9, CHR 0xE9] < 2
   \<and> CHR ''|'' \<notin> set [CHR 0xE9, CHR 0xE9]
   \<and> (\<exists>c\<in>set [CHR 0xE9, CHR 0xE9]. is_alpha c)
   \<and> is_alpha (CHR 0xE9)
   \<and> validate_ingredient_format [CHR 0xE9, CHR 0xE9] = (False, Some ''No ingredient name found'')
   \<and> validate_ingredient_format [CHR 0xE9, CHR 0xE9] \<noteq> (True, None)"
  by code_simp

section \<open>The slug registry of the enrichment pass\<close>

lemma enriched_of_Cons:
  "enriched_of (r # rows) =
     (case enrich_cocktail r of Inl e \<Rightarrow> [] | Inr enriched \<Rightarrow> [enriched]) @ enriched_of rows"
  by (simp add: enriched_of_def)

lemma dom_update: "dom (\<lambda>a. if a = k then Some v else m a) = insert k (dom m)"
  by (auto split: if_splits)

lemma enrich_loop_snd:
  "snd (enrich_loop rows seen acc) = acc @ dedup (dom seen) (enriched_of rows)"
proof (induction rows arbitrary: seen acc)
  case Nil
  then show ?case by (simp add: enriched_of_def)
next
  case (Cons r rows)
  show ?case
  proof (cases "enrich_cocktail r")
    case (Inl e)
    with Cons show ?thesis by (simp add: enriched_of_Cons)
  next
    case (Inr en)
    show ?thesis
    proof (cases "seen (erow_slug en)")
      case None
      then have "erow_slug en \<notin> dom seen" by auto
      with Inr None Cons show ?thesis by (simp add: enriched_of_Cons dom_update)
    next
      case (Some i)
      then have "erow_slug en \<in> dom seen" by auto
      with Inr Some Cons show ?thesis by (simp add: enriched_of_Cons renamed_def)
    qed
  qed
qed

lemma enrich_loop_fst:
  "fst (enrich_loop rows seen acc) s =
     (case seen s of
        Some i \<Rightarrow> Some i
      | None \<Rightarrow> map_option erow_id (find (\<lambda>e. erow_slug e = s) (enriched_of rows)))"
proof (induction rows arbitrary: seen acc)
  case Nil
  then show ?case by (simp add: enriched_of_def split: option.splits)
next
  case (Cons r rows)
  show ?case
  proof (cases "enrich_cocktail r")
    case (Inl e)
    with Cons show ?thesis by (simp add: enriched_of_Cons split: option.splits)
  next
    case (Inr en)
    show ?thesis
    proof (cases "seen (erow_slug en)")
      case None
      with Inr Cons show ?thesis by (auto simp add: enriched_of_Cons split: option.splits)
    next
      case (Some i)
      with Inr Cons show ?thesis by (auto simp add: enriched_of_Cons split: option.splits)
    qed
  qed
qed

lemma length_dedup: "length (dedup S es) = length es"
  by (induction es arbitrary: S) auto

lemma dedup_nth:
  "k < length es \<Longrightarrow>
   dedup S es ! k =
     (if erow_slug (es ! k) \<in> S \<union> erow_slug ` set (take k es) then renamed (es ! k) else es ! k)"
proof (induction es arbitrary: S k)
  case Nil
  then show ?case by simp
next
  case (Cons e es)
  show ?case
  proof (cases k)
    case 0
    then show ?thesis by simp
  next
    case (Suc j)
    with Cons.prems have "j < length es" by simp
    with Cons.IH Suc show ?thesis by auto
  qed
qed

text \<open>
  Claim C3. The pass writes one record for each row that enriches, in the order of the
  input. A record whose generated slug was generated for an earlier record gets the slug
  followed by a hyphen and its own id; any other record keeps its slug. At the end the
  registry maps each generated slug to the id of the first record that generated it, so
  it never holds a rewritten slug in place of the generated one, and a third record with
  the same generated slug is again given its own id. Two records with names giving
  \<open>foo\<close> and ids 5 and 9 get \<open>foo\<close> and \<open>foo-9\<close>; a third with id 12 gets
  \<open>foo-12\<close>.
\<close>

theorem slug_dedup:
  "length (snd (enrich_pass rows)) = length (enriched_of rows)
   \<and> (\<forall>k < length (enriched_of rows).
         snd (enrich_pass rows) ! k =
           (let e = enriched_of rows ! k in
            if erow_slug e \<in> erow_slug ` set (take k (enriched_of rows))
            then e\<lparr>erow_slug := erow_slug e @ ''-'' @ erow_id e\<rparr> else e))
   \<and> (\<forall>s. fst (enrich_pass rows) s =
            map_option erow_id (find (\<lambda>e. erow_slug e = s) (enriched_of rows)))
   \<and> map erow_slug (snd (enrich_pass
         [[''id'' \<mapsto> ''5'', ''name'' \<mapsto> ''foo''], [''id'' \<mapsto> ''9'', ''name'' \<mapsto> ''foo'']]))
       = [''foo'', ''foo-9'']
   \<and> map erow_slug (snd (enrich_pass
         [[''id'' \<mapsto> ''5'', ''name'' \<mapsto> ''foo''], [''id'' \<mapsto> ''9'', ''name'' \<mapsto> ''foo''],
          [''id'' \<mapsto> ''12'', ''name'' \<mapsto> ''foo'']]))
       = [''foo'', ''foo-9'', ''foo-12'']"
proof -
  have general:
    "length (snd (enrich_pass rows)) = length (enriched_of rows)
     \<and> (\<forall>k < length (enriched_of rows).
           snd (enrich_pass rows) ! k =
             (let e = enriched_of rows ! k in
              if erow_slug e \<in> erow_slug ` set (take k (enriched_of rows))
              then e\<lparr>erow_slug := erow_slug e @ ''-'' @ erow_id e\<rparr> else e))
     \<and> (\<forall>s. fst (enrich_pass rows) s =
              map_option erow_id (find (\<lambda>e. erow_slug e = s) (enriched_of rows)))"
    by (simp add: enrich_pass_def enrich_loop_snd enrich_loop_fst length_dedup dedup_nth
          renamed_def Let_def)
  have examples:
    "map erow_slug (snd (enrich_pass
         [[''id'' \<mapsto> ''5'', ''name'' \<mapsto> ''foo''], [''id'' \<mapsto> ''9'', ''name'' \<mapsto> ''foo'']]))
       = [''foo'', ''foo-9'']
     \<and> map erow_slug (snd (enrich_pass
         [[''id'' \<mapsto> ''5'', ''name'' \<mapsto> ''foo''], [''id'' \<mapsto> ''9'', ''name'' \<mapsto> ''foo''],
          [''id'' \<mapsto> ''12'', ''name'' \<mapsto> ''foo'']]))
       = [''foo'', ''foo-9'', ''foo-12'']"
    by code_simp
  from general examples show ?thesis by blast
qed

text \<open>The two loops of \<open>main\<close> on three rows: the second is removed as junk, and the third
  generates the slug of the first.\<close>

lemma main_enrich_example:
  "main_enrich [[''id'' \<mapsto> ''5'', ''name'' \<mapsto> ''Martini''],
                [''id'' \<mapsto> ''7'', ''name'' \<mapsto> ''Brain Fart''],
                [''id'' \<mapsto> ''9'', ''name'' \<mapsto> '' martini! '']]
     = [\<lparr>erow_id = ''5'', erow_slug = ''martini'', erow_name = ''Martini''\<rparr>,
        \<lparr>erow_id = ''9'', erow_slug = ''martini-9'', erow_name = ''martini!''\<rparr>]"
  by code_simp

text \<open>The third of three records named \<open>Foo\<close>, \<open>foo!\<close> and \<open>foo\<close>, and the registry.\<close>

theorem slug_dedup_witness:
  "(2::nat) < length (enriched_of
       [[''id'' \<mapsto> ''5'', ''name'' \<mapsto> ''Foo''], [''id'' \<mapsto> ''9'', ''name'' \<mapsto> ''foo!''],
        [''id'' \<mapsto> ''12'', ''name'' \<mapsto> ''foo'']])
   \<and> snd (enrich_pass
       [[''id'' \<mapsto> ''5'', ''name'' \<mapsto> ''Foo''], [''id'' \<mapsto> ''9'', ''name'' \<mapsto> ''foo!''],
        [''id'' \<mapsto> ''12'', ''name'' \<mapsto> ''foo'']]) ! 2
       = \<lparr>erow_id = ''12'', erow_slug = ''foo-12'', erow_name = ''foo''\<rparr>
   \<and> fst (enrich_pass
       [[''id'' \<mapsto> ''5'', ''name'' \<mapsto> ''Foo''], [''id'' \<mapsto> ''9'', ''name'' \<mapsto> ''foo!''],
        [''id'' \<mapsto> ''12'', ''name'' \<mapsto> ''foo'']]) ''foo'' = Some ''5''"
proof -
  let ?rows = "[[''id'' \<mapsto> ''5'', ''name'' \<mapsto> ''Foo''], [''id'' \<mapsto> ''9'', ''name'' \<mapsto> ''foo!''],
                [''id'' \<mapsto> ''12'', ''name'' \<mapsto> ''foo'']] :: row list"
  have k: "2 < length (enriched_of ?rows)"
    by code_simp
  have r: "(let e = enriched_of ?rows ! 2 in
            if erow_slug e \<in> erow_slug ` set (take 2 (enriched_of ?rows))
            then e\<lparr>erow_slug := erow_slug e @ ''-'' @ erow_id e\<rparr> else e)
           = \<lparr>erow_id = ''12'', erow_slug = ''foo-12'', erow_name = ''foo''\<rparr>"
    by code_simp
  have g: "map_option erow_id (find (\<lambda>e. erow_slug e = ''foo'') (enriched_of ?rows)) = Some ''5''"
    by code_simp
  from slug_dedup [of ?rows] k r g show ?thesis by simp
qed

section \<open>Re-slugging a slug\<close>

lemma cp_char_of: "cp (char_of (n::nat)) = n mod 256"
  by (simp add: cp_def)

lemma not_upper_lower_char: "\<not> is_upper (lower_char c)"
proof (cases "is_upper c")
  case False
  then show ?thesis by (simp add: lower_char_def)
next
  case True
  then have "cp c + 32 < 256" "97 \<le> cp c + 32"
    by (auto simp: is_upper_def in_range_def cp_def)
  moreover from True have "cp c + 32 \<le> 122 \<or> 224 \<le> cp c + 32"
    by (auto simp: is_upper_def in_range_def cp_def)
  ultimately have "\<not> is_upper (char_of (cp c + 32))"
    unfolding is_upper_def in_range_def cp_char_of by (auto simp: cp_def)
  with True show ?thesis by (simp add: lower_char_def)
qed

lemma lower_char_idem: "lower_char (lower_char c) = lower_char c"
  using not_upper_lower_char [of c] by (simp add: lower_char_def [of "lower_char c"])

lemma set_sub_runs: "set (sub_runs p r s) \<subseteq> set r \<union> {c \<in> set s. \<not> p c}"
proof (induction p r s rule: sub_runs.induct)
  case (1 p r)
  then show ?case by simp
next
  case (2 p r c s)
  show ?case
  proof (cases "p c")
    case True
    with 2 have "set (sub_runs p r (dropWhile p s)) \<subseteq> set r \<union> {c \<in> set (dropWhile p s). \<not> p c}"
      by simp
    moreover have "set (dropWhile p s) \<subseteq> set s"
      by (auto dest: set_dropWhileD)
    ultimately show ?thesis using True by auto
  next
    case False
    with 2 show ?thesis by auto
  qed
qed

lemma sub_runs_none: "(\<And>c. c \<in> set s \<Longrightarrow> \<not> p c) \<Longrightarrow> sub_runs p r s = s"
  by (induction s) auto

lemma set_strip_chars: "set (strip_chars p s) \<subseteq> set s"
  by (auto simp: strip_chars_def dest!: set_dropWhileD)

lemma dropWhile_strip_chars: "dropWhile p (strip_chars p s) = strip_chars p s"
proof (cases "dropWhile p s")
  case Nil
  show ?thesis unfolding strip_chars_def Nil by simp
next
  case (Cons a t)
  then have na: "\<not> p a" using hd_dropWhile [of p s] by auto
  have "dropWhile p (rev t @ [a]) = (if \<forall>x\<in>set (rev t). p x then [a] else dropWhile p (rev t) @ [a])"
    using na by (simp add: dropWhile_append)
  then obtain w where "dropWhile p (rev t @ [a]) = w @ [a]"
    by (metis append_Nil)
  with Cons have "strip_chars p s = a # rev w"
    by (simp add: strip_chars_def)
  with na show ?thesis by simp
qed

lemma strip_chars_idem: "strip_chars p (strip_chars p s) = strip_chars p s"
proof -
  have "strip_chars p (strip_chars p s) = rev (dropWhile p (rev (strip_chars p s)))"
    by (simp add: strip_chars_def [of p "strip_chars p s"] dropWhile_strip_chars)
  also have "rev (strip_chars p s) = dropWhile p (rev (dropWhile p s))"
    by (simp add: strip_chars_def)
  also have "rev (dropWhile p (dropWhile p (rev (dropWhile p s)))) = strip_chars p s"
    by (simp add: strip_chars_def)
  finally show ?thesis .
qed

lemma slug_char_hyphen: "slug_char CHR ''-''"
  by code_simp

lemma create_slug_chars: "c \<in> set (create_slug name) \<Longrightarrow> slug_char c"
proof -
  let ?a = "lower name"
  let ?b = "sub_each (\<lambda>c. \<not> (is_word c \<or> is_space c \<or> c = CHR ''-'')) [] ?a"
  let ?c = "sub_runs (\<lambda>c. is_space c \<or> c = CHR ''_'') ''-'' ?b"
  assume "c \<in> set (create_slug name)"
  then have "c \<in> set (strip_chars (\<lambda>c. c = CHR ''-'') ?c)"
    by (simp add: create_slug_def Let_def)
  then have "c \<in> set ?c" using set_strip_chars by blast
  then have "c \<in> set ''-'' \<union> {c \<in> set ?b. \<not> (is_space c \<or> c = CHR ''_'')}"
    using set_sub_runs by blast
  then consider "c = CHR ''-''" | "c \<in> set ?b" "\<not> (is_space c \<or> c = CHR ''_'')" by auto
  then show ?thesis
  proof cases
    case 1
    then show ?thesis by (simp add: slug_char_hyphen)
  next
    case 2
    then have "c \<in> set ?a" "is_word c \<or> is_space c \<or> c = CHR ''-''"
      by (auto simp: sub_each_delete)
    moreover from \<open>c \<in> set ?a\<close> obtain y where "c = lower_char y"
      by (auto simp: lower_def)
    then have "lower_char c = c"
      by (simp add: lower_char_idem)
    ultimately show ?thesis using 2 by (simp add: slug_char_def)
  qed
qed

text \<open>
  Claim C8. \<open>create_slug\<close> is idempotent: the slug of a slug is that slug, for every
  input string.
\<close>

theorem create_slug_idempotent: "create_slug (create_slug x) = create_slug x"
proof -
  let ?s = "create_slug x"
  have ch: "\<And>c. c \<in> set ?s \<Longrightarrow> slug_char c" by (rule create_slug_chars)
  have 1: "lower ?s = ?s"
    unfolding lower_def by (rule map_idI) (use ch in \<open>simp add: slug_char_def\<close>)
  have 2: "sub_each (\<lambda>c. \<not> (is_word c \<or> is_space c \<or> c = CHR ''-'')) [] ?s = ?s"
    unfolding sub_each_delete using ch by (auto simp: slug_char_def intro!: filter_True)
  have 3: "sub_runs (\<lambda>c. is_space c \<or> c = CHR ''_'') ''-'' ?s = ?s"
    by (rule sub_runs_none) (use ch in \<open>simp add: slug_char_def\<close>)
  have 4: "strip_chars (\<lambda>c. c = CHR ''-'') ?s = ?s"
    by (simp add: create_slug_def [of x] Let_def strip_chars_idem)
  show ?thesis
    by (simp only: create_slug_def [of "create_slug x"] Let_def 1 2 3 4)
qed

section \<open>Flavor ratings\<close>

lemma flavor_range:
  "1 \<le> generate_flavor_profile name aspect \<and> generate_flavor_profile name aspect \<le> 10"
  unfolding generate_flavor_profile_def Let_def
  by (simp split: if_split)

lemma flavor_default:
  assumes "\<not> any_in (aspect_keywords aspect) (lower name)"
  shows "generate_flavor_profile name aspect = default_rating aspect"
proof -
  consider (strength) "aspect = ''strength''" | (sweetness) "aspect = ''sweetness''"
    | (tartness) "aspect = ''tartness''" | (bitterness) "aspect = ''bitterness''"
    | (aroma) "aspect = ''aroma''" | (texture) "aspect = ''texture''"
    | (other) "aspect \<notin> set aspects"
    by (auto simp: aspects_def)
  then show ?thesis
  proof cases
    case strength
    with assms show ?thesis
      by (simp add: generate_flavor_profile_def aspect_keywords_def default_rating_def any_in_def)
  next
    case sweetness
    with assms show ?thesis
      by (simp add: generate_flavor_profile_def aspect_keywords_def default_rating_def any_in_def)
  next
    case tartness
    with assms show ?thesis
      by (simp add: generate_flavor_profile_def aspect_keywords_def default_rating_def any_in_def)
  next
    case bitterness
    with assms show ?thesis
      by (simp add: generate_flavor_profile_def aspect_keywords_def default_rating_def any_in_def)
  next
    case aroma
    with assms show ?thesis
      by (simp add: generate_flavor_profile_def aspect_keywords_def default_rating_def any_in_def)
  next
    case texture
    with assms show ?thesis
      by (simp add: generate_flavor_profile_def aspect_keywords_def default_rating_def any_in_def)
  next
    case other
    then show ?thesis
      by (simp add: generate_flavor_profile_def default_rating_def aspects_def)
  qed
qed

text \<open>
  Claim C7, amended. For every name and every aspect, \<open>generate_flavor_profile\<close>
  returns an integer from 1 to 10; when none of the aspect's keywords occurs in the
  lowercased name it returns the aspect's default, which is 6 for strength, 5 for
  sweetness, aroma and texture, 4 for tartness and 3 for bitterness.
\<close>

theorem flavor_profile_range_and_defaults:
  "1 \<le> generate_flavor_profile name aspect \<and> generate_flavor_profile name aspect \<le> 10
   \<and> (\<not> any_in (aspect_keywords aspect) (lower name)
        \<longrightarrow> generate_flavor_profile name aspect = default_rating aspect)"
  using flavor_range [of name aspect] flavor_default [of aspect name] by blast

theorem flavor_profile_range_and_defaults_witness:
  "\<not> any_in (aspect_keywords ''tartness'') (lower ''Mojito'')
   \<and> generate_flavor_profile ''Mojito'' ''tartness'' = 4
   \<and> 1 \<le> generate_flavor_profile ''Mojito'' ''tartness''
   \<and> generate_flavor_profile ''Mojito'' ''tartness'' \<le> 10"
proof -
  have h: "\<not> any_in (aspect_keywords ''tartness'') (lower ''Mojito'')"
    by code_simp
  have d: "default_rating ''tartness'' = 4"
    by (simp add: default_rating_def)
  from flavor_profile_range_and_defaults [of "''Mojito''" "''tartness''"] h d
  show ?thesis by simp
qed

text \<open>
  The claim as stated gives 5, 4 or 6 as the value without a keyword: no keyword of
  bitterness occurs in \<open>water\<close>, and its bitterness is 3.
\<close>

theorem flavor_default_counterexample:
  "\<not> any_in (aspect_keywords ''bitterness'') (lower ''water'')
   \<and> generate_flavor_profile ''water'' ''bitterness'' = 3
   \<and> generate_flavor_profile ''water'' ''bitterness'' \<notin> {5, 4, 6}"
  by code_simp

section \<open>Generated slugs and the slug validator\<close>

text \<open>
  Claim C9. A name exists whose generated slug fails the pattern of \<open>is_url_safe\<close>:
  the name \<open>Vieux Carr\<close> followed by U+00C9 passes the classifier, \<open>create_slug\<close> keeps
  its last letter (lowercased to U+00E9, a word character), and the slug is not URL-safe.
\<close>

theorem generated_slug_not_url_safe:
  "is_legitimate_cocktail (Some (''Vieux Carr'' @ [CHR 0xC9]))
   \<and> create_slug (''Vieux Carr'' @ [CHR 0xC9]) = ''vieux-carr'' @ [CHR 0xE9]
   \<and> \<not> is_url_safe (create_slug (''Vieux Carr'' @ [CHR 0xC9]))"
  by code_simp

section \<open>The report of the slug validator\<close>




lemma counter_add_keys: "map fst (counter_add x kvs) = (if x \<in> fst ` set kvs then map fst kvs else map fst kvs @ [x])"
  by (induction kvs) (auto split: if_splits)

lemma counter_add_distinct: "distinct (map fst kvs) \<Longrightarrow> distinct (map fst (counter_add x kvs))"
  by (simp add: counter_add_keys)

lemma counter_add_map_of:
  "map_of (counter_add x kvs) =
     (map_of kvs)(x \<mapsto> (case map_of kvs x of None \<Rightarrow> 1 | Some n \<Rightarrow> n + 1))"
  by (induction kvs) (auto simp: fun_eq_iff)

lemma foldl_counter:
  "distinct (map fst kvs) \<Longrightarrow>
   distinct (map fst (foldl (\<lambda>kvs x. counter_add x kvs) kvs xs))
   \<and> map_of (foldl (\<lambda>kvs x. counter_add x kvs) kvs xs) s =
       (case map_of kvs s of
          None \<Rightarrow> if s \<in> set xs then Some (count_list xs s) else None
        | Some n \<Rightarrow> Some (n + count_list xs s))"
proof (induction xs arbitrary: kvs)
  case Nil
  then show ?case by (simp split: option.splits)
next
  case (Cons x xs)
  from Cons.prems have "distinct (map fst (counter_add x kvs))"
    by (rule counter_add_distinct)
  from Cons.IH [OF this] show ?case
    by (auto simp: counter_add_map_of split: option.splits)
qed

lemma Counter_props:
  "distinct (map fst (Counter xs))
   \<and> map_of (Counter xs) s = (if s \<in> set xs then Some (count_list xs s) else None)"
  using foldl_counter [of "[]" xs s] by (simp add: Counter_def)

lemma duplicates_props:
  "distinct (map fst (duplicates slugs))
   \<and> set (duplicates slugs) = {(s, n). s \<in> set slugs \<and> n = count_list slugs s \<and> n > 1}"
proof -
  have d: "distinct (map fst (Counter slugs))" using Counter_props by blast
  have m: "\<And>s n. (s, n) \<in> set (Counter slugs) \<longleftrightarrow> s \<in> set slugs \<and> n = count_list slugs s"
    using Counter_props [of slugs] d by (metis map_of_eq_Some_iff option.distinct(1) option.inject)
  have "distinct (map fst (duplicates slugs))"
    unfolding duplicates_def using d by (rule distinct_map_filter)
  moreover have "set (duplicates slugs) = {(s, n). s \<in> set slugs \<and> n = count_list slugs s \<and> n > 1}"
    using m by (auto simp: duplicates_def)
  ultimately show ?thesis by blast
qed

lemma distinct_count_list: "distinct xs \<longleftrightarrow> (\<forall>x\<in>set xs. count_list xs x \<le> 1)"
proof (induction xs)
  case Nil
  then show ?case by simp
next
  case (Cons a xs)
  have "count_list xs a = 0 \<longleftrightarrow> a \<notin> set xs" by (rule count_list_0_iff)
  with Cons show ?case by auto
qed

lemma duplicates_Nil_iff: "duplicates slugs = [] \<longleftrightarrow> distinct slugs"
proof -
  have "duplicates slugs = [] \<longleftrightarrow> set (duplicates slugs) = {}" by simp
  also have "\<dots> \<longleftrightarrow> (\<forall>s\<in>set slugs. count_list slugs s \<le> 1)"
    using duplicates_props [of slugs] by (auto simp: not_less)
  also have "\<dots> \<longleftrightarrow> distinct slugs"
    by (simp add: distinct_count_list)
  finally show ?thesis .
qed



section \<open>The result of the ingredient validator\<close>

lemma ingredient_loop_acc:
  "ingredient_loop i name j ts errors = errors @ ingredient_loop i name j ts []"
proof (induction ts arbitrary: j errors)
  case Nil
  then show ?case by simp
next
  case (Cons t ts)
  obtain v m where vm: "validate_ingredient_format t = (v, m)"
    by (cases "validate_ingredient_format t")
  show ?case
  proof (cases v)
    case True
    with vm show ?thesis using Cons [of "j + 1" errors] by simp
  next
    case False
    with vm show ?thesis
      using Cons [of "j + 1" "errors @ [BadIngredient i name j m t]"]
        Cons [of "j + 1" "[BadIngredient i name j m t]"]
      by simp
  qed
qed

lemma ingredient_loop_Nil_iff:
  "ingredient_loop i name j ts [] = [] \<longleftrightarrow> (\<forall>t\<in>set ts. fst (validate_ingredient_format t))"
proof (induction ts arbitrary: j)
  case Nil
  then show ?case by simp
next
  case (Cons t ts)
  obtain v m where vm: "validate_ingredient_format t = (v, m)"
    by (cases "validate_ingredient_format t")
  show ?case
  proof (cases v)
    case True
    with vm show ?thesis using Cons [of "j + 1"] by simp
  next
    case False
    with vm show ?thesis
      using ingredient_loop_acc [of i name "j + 1" ts "[BadIngredient i name j m t]"]
      by simp
  qed
qed

lemma vi_row_eq:
  "vi_errors (vi_row i r st) = vi_errors st @ row_errors i r
   \<and> vi_total_rows (vi_row i r st) = vi_total_rows st + 1"
  using ingredient_loop_acc [of i "strip (dict_get r ''name'' [])" 1 "row_tokens r" "vi_errors st"]
  by (simp add: vi_row_def row_errors_def row_tokens_def Let_def)

lemma vi_loop_eq:
  "vi_errors (vi_loop i rows st) = vi_errors st @ concat (map (\<lambda>(k, r). row_errors k r) (enumerate i rows))
   \<and> vi_total_rows (vi_loop i rows st) = vi_total_rows st + length rows"
proof (induction rows arbitrary: i st)
  case Nil
  then show ?case by simp
next
  case (Cons r rows)
  show ?case using Cons [of "i + 1" "vi_row i r st"] vi_row_eq [of i r st] by simp
qed

lemma row_errors_Nil_iff:
  "row_errors i r = [] \<longleftrightarrow> (\<forall>t\<in>set (row_tokens r). fst (validate_ingredient_format t))"
proof (cases "strip (dict_get r ''ingredients'' []) = []")
  case True
  have "strip [] = []"
    by (simp add: strip_def strip_chars_def)
  then have "row_tokens r = [[]]"
    unfolding row_tokens_def True by simp
  moreover have "\<not> fst (validate_ingredient_format [])" by code_simp
  ultimately show ?thesis using True by (simp add: row_errors_def)
next
  case False
  then show ?thesis by (simp add: row_errors_def ingredient_loop_Nil_iff)
qed

lemma vi_scan_errors_iff:
  "vi_errors (vi_scan rows) = [] \<longleftrightarrow>
     (\<forall>r\<in>set rows. \<forall>t\<in>set (row_tokens r). fst (validate_ingredient_format t))"
proof -
  have "vi_errors (vi_scan rows) = concat (map (\<lambda>(k, r). row_errors k r) (enumerate 2 rows))"
    using vi_loop_eq [of 2 rows] by (simp add: vi_scan_def)
  moreover have "snd ` set (enumerate 2 rows) = set rows"
    by (metis map_snd_enumerate set_map)
  ultimately show ?thesis
    by (force simp: row_errors_Nil_iff)
qed

lemma validate_ingredients_eq:
  "validate_ingredients rows =
     (if rows = [] then Inl ZeroDivisionError
      else Inr (\<forall>r\<in>set rows. \<forall>t\<in>set (row_tokens r). fst (validate_ingredient_format t)))"
proof -
  have "vi_total_rows (vi_scan rows) = length rows"
    using vi_loop_eq [of 2 rows] by (simp add: vi_scan_def)
  then show ?thesis
    by (simp add: validate_ingredients_def Let_def vi_scan_errors_iff)
qed

text \<open>
  Claim C5, on the file with a header and no data row: no token-level error occurred
  (the scan reports no error at all), and the script does not succeed:
  \<open>validate_ingredients\<close> raises \<open>ZeroDivisionError\<close> and the exit status is 1. On
  every file with a row, \<open>validate_ingredients_eq\<close> above gives the result the claim
  states.
\<close>

theorem ingredient_validator_fails_without_rows:
  "vi_errors (vi_scan []) = []
   \<and> vi_warnings (vi_scan []) = []
   \<and> vi_main (Some []) = Inl ZeroDivisionError
   \<and> exit_code (vi_main (Some [])) = 1"
  by (simp add: vi_main_def validate_ingredients_def vi_scan_def exit_code_def)

section \<open>The ingredient validator on a file without rows\<close>

text \<open>
  Claim C10. On a file with a header and no data row, \<open>validate_ingredients\<close> divides
  by \<open>total_rows = 0\<close> and raises \<open>ZeroDivisionError\<close>: it returns neither \<open>True\<close> nor
  \<open>False\<close>, and \<open>main\<close> passes the exception on.
\<close>

theorem validate_ingredients_no_rows:
  "validate_ingredients [] = Inl ZeroDivisionError
   \<and> (\<forall>b. validate_ingredients [] \<noteq> Inr b)
   \<and> vi_main (Some []) = Inl ZeroDivisionError"
  by (simp add: validate_ingredients_def vi_main_def vi_scan_def)

end
